theory Spec2Isabelle
  imports Main "HOL-Library.Word"
begin

section \<open>The transaction handler of go-algorand (package data)\<close>

text \<open>
  The handler receives transaction groups from the gossip network, filters and verifies
  them and hands the valid ones to the transaction pool and back to the network.
  The development follows the Go source function by function. Calls of the logger have
  no effect on the handler and are left out.
\<close>

subsection \<open>Data\<close>

type_synonym bytes = "8 word list"

text \<open>A Go \<^verbatim>\<open>error\<close> is carried as its message; \<^verbatim>\<open>nil\<close> is \<open>None\<close>.\<close>

type_synonym error = string

type_synonym Round = "64 word"

text \<open>An address is a \<^verbatim>\<open>[32]byte\<close>; its zero value is thirty-two zero bytes.\<close>

type_synonym Address = bytes

definition zeroAddress :: Address where
  "zeroAddress = replicate 32 0"

type_synonym ConsensusVersion = string

datatype Tag = TxnTag

text \<open>
  Modelled from the spec: the network layer's forwarding policy is declared outside the
  files at hand. A handler answers ignore or disconnect-sender; the enumeration starts
  with the ignore policy, which is therefore the action of the zero-valued
  \<^verbatim>\<open>network.OutgoingMessage{}\<close>.
\<close>

datatype ForwardingPolicy = Ignore | Disconnect | Broadcast

record OutgoingMessage =
  Action :: ForwardingPolicy

definition zeroOutgoingMessage :: OutgoingMessage where
  "zeroOutgoingMessage = \<lparr>Action = Ignore\<rparr>"

record 'peer IncomingMessage =
  Sender :: 'peer
  Data :: bytes

record SpecialAddresses =
  FeeSink :: Address
  RewardsPool :: Address

definition zeroSpecialAddresses :: SpecialAddresses where
  "zeroSpecialAddresses = \<lparr>FeeSink = zeroAddress, RewardsPool = zeroAddress\<rparr>"

text \<open>The fields of a block header that the handler reads.\<close>

record BlockHeader =
  hdrCurrentProtocol :: ConsensusVersion
  hdrFeeSink :: Address
  hdrRewardsPool :: Address

text \<open>
  \<^verbatim>\<open>txBacklogMsg\<close>: one incoming transaction group on its way through the handler.
  \<open>rawmsg\<close> is a pointer in the source and is \<^verbatim>\<open>nil\<close> (\<open>None\<close>) for an item
  built by \<^verbatim>\<open>processDecoded\<close>.
\<close>

record ('tx, 'proto, 'peer) txBacklogMsg =
  rawmsg :: "'peer IncomingMessage option"
  unverifiedTxGroup :: "'tx list"
  proto :: 'proto
  spec :: SpecialAddresses
  verificationErr :: "error option"

text \<open>The calls the handler makes on its \<^verbatim>\<open>network.GossipNode\<close>, in order.\<close>

datatype 'peer netCall =
    NetDisconnect 'peer
  | NetRelay Tag bytes bool 'peer

text \<open>One answer of the stream decoder: end of stream, a failure, or a record and the
  rest of the stream.\<close>

datatype 'tx DecodeResult = DecEOF | DecErr error | DecOk 'tx bytes

text \<open>
  The collaborators of the handler, which live in other packages: the codec, the
  transaction pool, the ledger, the table of consensus parameters and the verifier.
  They are parameters of every function below. \<open>zeroTx\<close> and \<open>zeroProto\<close> are the Go
  zero values of a signed transaction and of the consensus parameters.
\<close>

record ('tx, 'proto, 'pool, 'ledger) collaborators =
  Encode :: "'tx \<Rightarrow> bytes"
  Decode :: "bytes \<Rightarrow> 'tx DecodeResult"
  InitCaches :: "'tx \<Rightarrow> 'tx"
  poolTest :: "'pool \<Rightarrow> 'tx list \<Rightarrow> error option"
  poolRemember :: "'pool \<Rightarrow> 'tx list \<Rightarrow> error option \<times> 'pool"
  ledgerLatest :: "'ledger \<Rightarrow> Round"
  ledgerBlockHdr :: "'ledger \<Rightarrow> Round \<Rightarrow> error + BlockHeader"
  Consensus :: "ConsensusVersion \<rightharpoonup> 'proto"
  verifyTxn :: "'tx \<Rightarrow> SpecialAddresses \<Rightarrow> 'proto \<Rightarrow> error option"
  verifyTxnPool :: "'tx \<Rightarrow> SpecialAddresses \<Rightarrow> 'proto \<Rightarrow> error option"
  zeroTx :: 'tx
  zeroProto :: 'proto

text \<open>
  \<^verbatim>\<open>TxHandler\<close>, with the state of what it points to: the pool, the ledger, the tasks
  the verification pool has accepted and not yet run, the two buffered channels (oldest
  item first), the calls made on the network, whether the context is cancelled, and
  the three metrics counters of the package.
\<close>

record ('tx, 'proto, 'peer, 'pool, 'ledger) TxHandler =
  txPool :: 'pool
  ledger :: 'ledger
  txVerificationPool :: "('tx, 'proto, 'peer) txBacklogMsg list"
  backlogQueue :: "('tx, 'proto, 'peer) txBacklogMsg list"
  postVerificationQueue :: "('tx, 'proto, 'peer) txBacklogMsg list"
  net :: "'peer netCall list"
  ctxDone :: bool
  transactionMessagesHandled :: nat
  transactionMessagesDroppedFromBacklog :: nat
  transactionMessagesDroppedFromPool :: nat

datatype panic = NilDereference

definition txBacklogSize :: nat where
  "txBacklogSize = 1000"

subsection \<open>Operations\<close>

text \<open>\<^verbatim>\<open>reencode\<close>: append the encoding of every transaction, then join with no separator.\<close>

definition reencode ::
  "('tx, 'proto, 'pool, 'ledger) collaborators \<Rightarrow> 'tx list \<Rightarrow> bytes" where
  "reencode E stxns = concat (foldl (\<lambda>result stxn. result @ [Encode E stxn]) [] stxns)"

text \<open>
  \<^verbatim>\<open>postprocessCheckedTxn\<close>. Reading \<^verbatim>\<open>wi.rawmsg.Sender\<close> through a nil
  \<^verbatim>\<open>rawmsg\<close> panics.
\<close>

definition postprocessCheckedTxn ::
  "('tx, 'proto, 'pool, 'ledger) collaborators \<Rightarrow>
   ('tx, 'proto, 'peer, 'pool, 'ledger) TxHandler \<Rightarrow>
   ('tx, 'proto, 'peer) txBacklogMsg \<Rightarrow>
   panic + ('tx, 'proto, 'peer, 'pool, 'ledger) TxHandler" where
  "postprocessCheckedTxn E handler wi =
     (case verificationErr wi of
        Some e \<Rightarrow>
          (case rawmsg wi of
             None \<Rightarrow> Inl NilDereference
           | Some m \<Rightarrow> Inr (handler\<lparr>net := net handler @ [NetDisconnect (Sender m)]\<rparr>))
      | None \<Rightarrow>
          (let h1 = handler\<lparr>transactionMessagesHandled :=
                       transactionMessagesHandled handler + 1\<rparr>;
               verifiedTxGroup = unverifiedTxGroup wi;
               (err, pool') = poolRemember E (txPool h1) verifiedTxGroup;
               h2 = h1\<lparr>txPool := pool'\<rparr>
           in case err of
                Some e \<Rightarrow> Inr h2
              | None \<Rightarrow>
                  (case rawmsg wi of
                     None \<Rightarrow> Inl NilDereference
                   | Some m \<Rightarrow>
                       Inr (h2\<lparr>net := net h2 @
                              [NetRelay TxnTag (reencode E verifiedTxGroup) False (Sender m)]\<rparr>))))"

text \<open>
  The loop of \<^verbatim>\<open>asyncVerifySignature\<close>: every round assigns the verifier's answer
  to \<^verbatim>\<open>tx.verificationErr\<close> and leaves the loop when it is an error. The fourth
  argument is the value the field holds so far.
\<close>

fun asyncVerifySignature_loop ::
  "('tx, 'proto, 'pool, 'ledger) collaborators \<Rightarrow> SpecialAddresses \<Rightarrow> 'proto \<Rightarrow>
   error option \<Rightarrow> 'tx list \<Rightarrow> error option" where
  "asyncVerifySignature_loop E sp pr err [] = err"
| "asyncVerifySignature_loop E sp pr err (txn # rest) =
     (case verifyTxn E txn sp pr of
        Some e \<Rightarrow> Some e
      | None \<Rightarrow> asyncVerifySignature_loop E sp pr None rest)"

text \<open>
  \<^verbatim>\<open>asyncVerifySignature\<close>: verify, then a \<^verbatim>\<open>select\<close> with a \<^verbatim>\<open>default\<close>
  branch sends the item on \<^verbatim>\<open>postVerificationQueue\<close>, a channel with a buffer of
  \<open>txBacklogSize\<close> items.
\<close>

definition asyncVerifySignature ::
  "('tx, 'proto, 'pool, 'ledger) collaborators \<Rightarrow>
   ('tx, 'proto, 'peer, 'pool, 'ledger) TxHandler \<Rightarrow>
   ('tx, 'proto, 'peer) txBacklogMsg \<Rightarrow>
   ('tx, 'proto, 'peer, 'pool, 'ledger) TxHandler" where
  "asyncVerifySignature E handler tx =
     (let tx' = tx\<lparr>verificationErr :=
                  asyncVerifySignature_loop E (spec tx) (proto tx)
                    (verificationErr tx) (unverifiedTxGroup tx)\<rparr>
      in if length (postVerificationQueue handler) < txBacklogSize
         then handler\<lparr>postVerificationQueue := postVerificationQueue handler @ [tx']\<rparr>
         else handler\<lparr>transactionMessagesDroppedFromPool :=
                transactionMessagesDroppedFromPool handler + 1\<rparr>)"

text \<open>
  The decoding loop of \<^verbatim>\<open>processIncomingTxn\<close>. The decoder is the rest of the
  stream; \<open>ntx\<close> counts the records decoded so far and \<open>grp\<close> is the slice they are
  stored in, doubled (and padded with zero values) when it is full. A decoder that
  goes on answering with records keeps the loop running: the result is \<open>None\<close> then.
\<close>

partial_function (option) processIncomingTxn_loop ::
  "(bytes \<Rightarrow> 'tx DecodeResult) \<Rightarrow> 'tx \<Rightarrow> bytes \<Rightarrow> nat \<Rightarrow> 'tx list \<Rightarrow>
   (error + nat \<times> 'tx list) option" where
  "processIncomingTxn_loop D z dec ntx grp =
     (let grp1 = (if length grp = ntx then grp @ replicate (length grp) z else grp)
      in case D dec of
           DecEOF \<Rightarrow> Some (Inr (ntx, grp1))
         | DecErr e \<Rightarrow> Some (Inl e)
         | DecOk tx dec' \<Rightarrow> processIncomingTxn_loop D z dec' (Suc ntx) (grp1[ntx := tx]))"

text \<open>
  \<^verbatim>\<open>processIncomingTxn\<close>, the handler registered for \<open>TxnTag\<close>: the answer to the
  network layer and the handler afterwards.
\<close>

definition processIncomingTxn ::
  "('tx, 'proto, 'pool, 'ledger) collaborators \<Rightarrow>
   ('tx, 'proto, 'peer, 'pool, 'ledger) TxHandler \<Rightarrow>
   'peer IncomingMessage \<Rightarrow>
   (OutgoingMessage \<times> ('tx, 'proto, 'peer, 'pool, 'ledger) TxHandler) option" where
  "processIncomingTxn E handler msg =
     (case processIncomingTxn_loop (Decode E) (zeroTx E) (Data msg) 0 [zeroTx E] of
        None \<Rightarrow> None
      | Some (Inl e) \<Rightarrow> Some (\<lparr>Action = Disconnect\<rparr>, handler)
      | Some (Inr (ntx, grp)) \<Rightarrow>
          if ntx = 0 then Some (\<lparr>Action = Disconnect\<rparr>, handler)
          else
            (let item = \<lparr>rawmsg = Some msg, unverifiedTxGroup = take ntx grp,
                         proto = zeroProto E, spec = zeroSpecialAddresses,
                         verificationErr = None\<rparr>
             in if length (backlogQueue handler) < txBacklogSize
                then Some (\<lparr>Action = Ignore\<rparr>,
                           handler\<lparr>backlogQueue := backlogQueue handler @ [item]\<rparr>)
                else Some (\<lparr>Action = Ignore\<rparr>,
                           handler\<lparr>transactionMessagesDroppedFromBacklog :=
                             transactionMessagesDroppedFromBacklog handler + 1\<rparr>)))"

text \<open>
  \<^verbatim>\<open>checkAlreadyCommitted\<close>: the item afterwards and \<^verbatim>\<open>processingDone\<close>. The first
  loop initialises the caches of every transaction in place. A version that the table
  of consensus parameters does not hold reads as the zero value, as a Go map does.
\<close>

definition checkAlreadyCommitted ::
  "('tx, 'proto, 'pool, 'ledger) collaborators \<Rightarrow>
   ('tx, 'proto, 'peer, 'pool, 'ledger) TxHandler \<Rightarrow>
   ('tx, 'proto, 'peer) txBacklogMsg \<Rightarrow>
   ('tx, 'proto, 'peer) txBacklogMsg \<times> bool" where
  "checkAlreadyCommitted E handler tx =
     (let tx1 = tx\<lparr>unverifiedTxGroup := map (InitCaches E) (unverifiedTxGroup tx)\<rparr>
      in case poolTest E (txPool handler) (unverifiedTxGroup tx1) of
           Some e \<Rightarrow> (tx1, True)
         | None \<Rightarrow>
             (let latest = ledgerLatest E (ledger handler)
              in case ledgerBlockHdr E (ledger handler) latest of
                   Inl e \<Rightarrow> (tx1, True)
                 | Inr latestHdr \<Rightarrow>
                     (tx1\<lparr>proto := (case Consensus E (hdrCurrentProtocol latestHdr) of
                                      None \<Rightarrow> zeroProto E
                                    | Some p \<Rightarrow> p),
                          spec := (spec tx1)\<lparr>FeeSink := hdrFeeSink latestHdr,
                                             RewardsPool := hdrRewardsPool latestHdr\<rparr>\<rparr>,
                      False)))"

text \<open>The verification loop of \<^verbatim>\<open>processDecoded\<close>: the first error, if any.\<close>

fun processDecoded_loop ::
  "('tx, 'proto, 'pool, 'ledger) collaborators \<Rightarrow> SpecialAddresses \<Rightarrow> 'proto \<Rightarrow>
   'tx list \<Rightarrow> error option" where
  "processDecoded_loop E sp pr [] = None"
| "processDecoded_loop E sp pr (txn # rest) =
     (case verifyTxnPool E txn sp pr of
        Some e \<Rightarrow> Some e
      | None \<Rightarrow> processDecoded_loop E sp pr rest)"

text \<open>
  \<^verbatim>\<open>processDecoded\<close>: \<^verbatim>\<open>(outmsg, processingDone)\<close> and the handler afterwards. The
  slice it is given shares its array with the item, so the loop and the pool see the
  transactions as \<^verbatim>\<open>checkAlreadyCommitted\<close> left them.
\<close>

definition processDecoded ::
  "('tx, 'proto, 'pool, 'ledger) collaborators \<Rightarrow>
   ('tx, 'proto, 'peer, 'pool, 'ledger) TxHandler \<Rightarrow> 'tx list \<Rightarrow>
   (OutgoingMessage \<times> bool) \<times> ('tx, 'proto, 'peer, 'pool, 'ledger) TxHandler" where
  "processDecoded E handler unverifiedGroup =
     (let tx0 = \<lparr>rawmsg = None, unverifiedTxGroup = unverifiedGroup,
                 proto = zeroProto E, spec = zeroSpecialAddresses,
                 verificationErr = None\<rparr>;
          (tx, stop) = checkAlreadyCommitted E handler tx0
      in if stop then ((zeroOutgoingMessage, True), handler)
         else
           (case processDecoded_loop E (spec tx) (proto tx) (unverifiedTxGroup tx) of
              Some e \<Rightarrow> ((\<lparr>Action = Disconnect\<rparr>, True), handler)
            | None \<Rightarrow>
                (let (err, pool') = poolRemember E (txPool handler) (unverifiedTxGroup tx);
                     h = handler\<lparr>txPool := pool'\<rparr>
                 in case err of
                      Some e \<Rightarrow> ((zeroOutgoingMessage, True), h)
                    | None \<Rightarrow> ((zeroOutgoingMessage, False), h))))"

text \<open>\<^verbatim>\<open>solicitedTxHandler.Handle\<close>: the error it returns and the handler afterwards.\<close>

definition Handle ::
  "('tx, 'proto, 'pool, 'ledger) collaborators \<Rightarrow>
   ('tx, 'proto, 'peer, 'pool, 'ledger) TxHandler \<Rightarrow> 'tx list \<Rightarrow>
   error option \<times> ('tx, 'proto, 'peer, 'pool, 'ledger) TxHandler" where
  "Handle E handler txgroup =
     (let ((outmsg, processingDone), h) = processDecoded E handler txgroup
      in (if Action outmsg = Disconnect then Some ''invlid transaction'' else None, h))"

text \<open>
  \<^verbatim>\<open>MakeTxHandler\<close>: both channels are empty, nothing has been sent to the network
  and the context is live. The counters are package variables and start at zero.
\<close>

definition MakeTxHandler ::
  "'pool \<Rightarrow> 'ledger \<Rightarrow> ('tx, 'proto, 'peer, 'pool, 'ledger) TxHandler" where
  "MakeTxHandler pool l =
     \<lparr>txPool = pool, ledger = l, txVerificationPool = [], backlogQueue = [],
      postVerificationQueue = [], net = [], ctxDone = False,
      transactionMessagesHandled = 0, transactionMessagesDroppedFromBacklog = 0,
      transactionMessagesDroppedFromPool = 0\<rparr>"

subsection \<open>The dispatcher\<close>

text \<open>
  \<^verbatim>\<open>backlogWorker\<close> is a loop around two \<^verbatim>\<open>select\<close> statements. The worker is
  either at the first one, which polls \<^verbatim>\<open>postVerificationQueue\<close> and has a
  \<^verbatim>\<open>default\<close> branch, or at the second one, which waits for one of three cases, or it
  has returned.
\<close>

datatype location = AtPoll | AtWait | Returned

datatype selectCase = CaseBacklogQueue | CasePostVerificationQueue | CaseCtxDone

text \<open>
  One \<^verbatim>\<open>select\<close> of the worker. At the second \<^verbatim>\<open>select\<close> Go takes any one of the
  cases that can proceed; \<open>c\<close> is the case taken, and the result is \<open>None\<close> when that case
  cannot proceed (or the worker has returned). No function of the package closes a
  channel, so a receive that proceeds always delivers an item.

  Modelled from the spec: \<^verbatim>\<open>EnqueueBacklog\<close> belongs to the execution pool, outside
  the files at hand; it takes the item as a task and does not block the worker.
\<close>

definition backlogWorker_select ::
  "('tx, 'proto, 'pool, 'ledger) collaborators \<Rightarrow> selectCase \<Rightarrow>
   location \<times> ('tx, 'proto, 'peer, 'pool, 'ledger) TxHandler \<Rightarrow>
   (panic + location \<times> ('tx, 'proto, 'peer, 'pool, 'ledger) TxHandler) option" where
  "backlogWorker_select E c cfg =
     (case cfg of (loc, handler) \<Rightarrow>
        (case loc of
           Returned \<Rightarrow> None
         | AtPoll \<Rightarrow>
             (case postVerificationQueue handler of
                wi # rest \<Rightarrow>
                  Some (map_sum id (Pair AtPoll)
                    (postprocessCheckedTxn E (handler\<lparr>postVerificationQueue := rest\<rparr>) wi))
              | [] \<Rightarrow> Some (Inr (AtWait, handler)))
         | AtWait \<Rightarrow>
             (case c of
                CaseBacklogQueue \<Rightarrow>
                  (case backlogQueue handler of
                     [] \<Rightarrow> None
                   | wi # rest \<Rightarrow>
                       (let h1 = handler\<lparr>backlogQueue := rest\<rparr>;
                            (wi', stop) = checkAlreadyCommitted E h1 wi
                        in if stop then Some (Inr (AtPoll, h1))
                           else Some (Inr (AtPoll,
                                  h1\<lparr>txVerificationPool := txVerificationPool h1 @ [wi']\<rparr>))))
              | CasePostVerificationQueue \<Rightarrow>
                  (case postVerificationQueue handler of
                     [] \<Rightarrow> None
                   | wi # rest \<Rightarrow>
                       Some (map_sum id (Pair AtPoll)
                         (postprocessCheckedTxn E
                            (handler\<lparr>postVerificationQueue := rest\<rparr>) wi)))
              | CaseCtxDone \<Rightarrow>
                  (if ctxDone handler then Some (Inr (Returned, handler)) else None))))"

text \<open>
  The handler at work. Besides the dispatcher three parties act on it, each in its own
  goroutine: a worker of the verification pool runs \<^verbatim>\<open>asyncVerifySignature\<close> on a
  task the pool holds, the network layer calls \<^verbatim>\<open>processIncomingTxn\<close>, and
  \<^verbatim>\<open>Stop\<close> cancels the context.
\<close>

inductive step ::
  "('tx, 'proto, 'pool, 'ledger) collaborators \<Rightarrow>
   location \<times> ('tx, 'proto, 'peer, 'pool, 'ledger) TxHandler \<Rightarrow>
   location \<times> ('tx, 'proto, 'peer, 'pool, 'ledger) TxHandler \<Rightarrow> bool"
  for E where
  dispatcher: "backlogWorker_select E c cfg = Some (Inr cfg') \<Longrightarrow> step E cfg cfg'"
| verifier: "txVerificationPool handler = before @ tx # after \<Longrightarrow>
     step E (loc, handler)
       (loc, asyncVerifySignature E (handler\<lparr>txVerificationPool := before @ after\<rparr>) tx)"
| gossip: "processIncomingTxn E handler msg = Some (out, handler') \<Longrightarrow>
     step E (loc, handler) (loc, handler')"
| stop: "step E (loc, handler) (loc, handler\<lparr>ctxDone := True\<rparr>)"

text \<open>The configurations the handler can be in after \<^verbatim>\<open>Start\<close>.\<close>

definition reachable ::
  "('tx, 'proto, 'pool, 'ledger) collaborators \<Rightarrow> 'pool \<Rightarrow> 'ledger \<Rightarrow>
   location \<times> ('tx, 'proto, 'peer, 'pool, 'ledger) TxHandler \<Rightarrow> bool" where
  "reachable E pool l cfg = (step E)\<^sup>*\<^sup>* (AtPoll, MakeTxHandler pool l) cfg"

subsection \<open>What a message decodes to\<close>

text \<open>
  \<open>records D k dec\<close> reads \<open>k\<close> records from the stream \<open>dec\<close>: the records and the rest
  of the stream, or \<open>None\<close> when the decoder does not deliver \<open>k\<close> records.
\<close>

fun records ::
  "(bytes \<Rightarrow> 'tx DecodeResult) \<Rightarrow> nat \<Rightarrow> bytes \<Rightarrow> ('tx list \<times> bytes) option" where
  "records D 0 dec = Some ([], dec)"
| "records D (Suc k) dec =
     (case D dec of
        DecOk tx dec' \<Rightarrow>
          (case records D k dec' of
             None \<Rightarrow> None
           | Some (txs, rest) \<Rightarrow> Some (tx # txs, rest))
      | _ \<Rightarrow> None)"

subsection \<open>Queues filled by the gossip path\<close>

text \<open>
  An item comes from the gossip path when it carries the message it was decoded from.
  The items waiting for verification moreover carry no verification error yet.
\<close>

definition fromGossip :: "('tx, 'proto, 'peer) txBacklogMsg \<Rightarrow> bool" where
  "fromGossip wi = (rawmsg wi \<noteq> None)"

definition queuesFromGossip :: "('tx, 'proto, 'peer, 'pool, 'ledger) TxHandler \<Rightarrow> bool" where
  "queuesFromGossip handler =
     (list_all (\<lambda>wi. fromGossip wi \<and> verificationErr wi = None) (backlogQueue handler) \<and>
      list_all (\<lambda>wi. fromGossip wi \<and> verificationErr wi = None) (txVerificationPool handler) \<and>
      list_all fromGossip (postVerificationQueue handler))"

subsection \<open>A small instance\<close>

text \<open>
  Collaborators to run the handler on: a transaction is one byte and is its own
  encoding, the byte 255 does not decode, the byte 9 does not verify, the pool is the
  list of the transactions it holds and refuses a group that repeats one of them, and
  the ledger is its latest round, with a header for every round but round 0.
\<close>

definition exampleCollaborators :: "(8 word, nat, 8 word list, Round) collaborators" where
  "exampleCollaborators =
     \<lparr>Encode = (\<lambda>t. [t]),
      Decode = (\<lambda>bs. case bs of
                  [] \<Rightarrow> DecEOF
                | b # rest \<Rightarrow> if b = 255 then DecErr ''truncated record'' else DecOk b rest),
      InitCaches = (\<lambda>t. t),
      poolTest = (\<lambda>pool grp.
                  if list_ex (\<lambda>t. t \<in> set pool) grp then Some ''duplicate'' else None),
      poolRemember = (\<lambda>pool grp.
                  if list_ex (\<lambda>t. t \<in> set pool) grp then (Some ''duplicate'', pool)
                  else (None, pool @ grp)),
      ledgerLatest = (\<lambda>l. l),
      ledgerBlockHdr = (\<lambda>l r.
                  if r = 0 then Inl ''no header''
                  else Inr \<lparr>hdrCurrentProtocol = ''v1'', hdrFeeSink = [1],
                            hdrRewardsPool = [2]\<rparr>),
      Consensus = [''v1'' \<mapsto> 7],
      verifyTxn = (\<lambda>t sp pr. if t = 9 then Some ''bad signature'' else None),
      verifyTxnPool = (\<lambda>t sp pr. if t = 9 then Some ''bad signature'' else None),
      zeroTx = 0, zeroProto = 0\<rparr>"

type_synonym exampleHandler = "(8 word, nat, nat, 8 word list, Round) TxHandler"

definition exampleItem :: "(8 word, nat, nat) txBacklogMsg" where
  "exampleItem = \<lparr>rawmsg = Some \<lparr>Sender = 6, Data = [8]\<rparr>, unverifiedTxGroup = [8],
      proto = 0, spec = zeroSpecialAddresses, verificationErr = None\<rparr>"

text \<open>A handler whose two channels are full.\<close>

definition fullHandler :: exampleHandler where
  "fullHandler = (MakeTxHandler [] 1)\<lparr>backlogQueue := replicate 1000 exampleItem,
      postVerificationQueue := replicate 1000 exampleItem\<rparr>"

text \<open>
  A handler at the second \<^verbatim>\<open>select\<close> with an item on either channel: the first
  item has been verified in the meantime, the second has just arrived.
\<close>

definition raceItem1 :: "(8 word, nat, nat) txBacklogMsg" where
  "raceItem1 = \<lparr>rawmsg = Some \<lparr>Sender = 5, Data = [3]\<rparr>, unverifiedTxGroup = [3],
      proto = 7, spec = \<lparr>FeeSink = [1], RewardsPool = [2]\<rparr>, verificationErr = None\<rparr>"

definition raceItem2 :: "(8 word, nat, nat) txBacklogMsg" where
  "raceItem2 = \<lparr>rawmsg = Some \<lparr>Sender = 6, Data = [4]\<rparr>, unverifiedTxGroup = [4],
      proto = 0, spec = zeroSpecialAddresses, verificationErr = None\<rparr>"

definition raceHandler :: exampleHandler where
  "raceHandler = (MakeTxHandler [] 1)\<lparr>backlogQueue := [raceItem2],
      postVerificationQueue := [raceItem1]\<rparr>"


section \<open>Properties\<close>

subsection \<open>Auxiliary facts\<close>

lemma reencode_concat: "reencode E stxns = concat (map (Encode E) stxns)"
proof -
  have "foldl (\<lambda>result stxn. result @ [Encode E stxn]) acc stxns = acc @ map (Encode E) stxns"
    for acc
    by (induction stxns arbitrary: acc) simp_all
  then show ?thesis by (simp add: reencode_def)
qed

lemma postprocessCheckedTxn_queues:
  "postprocessCheckedTxn E handler wi = Inr handler' \<Longrightarrow>
     backlogQueue handler' = backlogQueue handler \<and>
     txVerificationPool handler' = txVerificationPool handler \<and>
     postVerificationQueue handler' = postVerificationQueue handler"
  by (auto simp: postprocessCheckedTxn_def Let_def split: option.splits prod.splits)

lemma asyncVerifySignature_loop_find:
  "asyncVerifySignature_loop E sp pr None txs =
     (case find (\<lambda>t. verifyTxn E t sp pr \<noteq> None) txs of
        None \<Rightarrow> None
      | Some t \<Rightarrow> verifyTxn E t sp pr)"
  by (induction txs) (auto split: option.splits)

lemma checkAlreadyCommitted_keeps:
  "checkAlreadyCommitted E handler tx = (tx', b) \<Longrightarrow>
     rawmsg tx' = rawmsg tx \<and> verificationErr tx' = verificationErr tx"
  by (auto simp: checkAlreadyCommitted_def Let_def split: option.splits sum.splits)

lemma checkAlreadyCommitted_group:
  "unverifiedTxGroup (fst (checkAlreadyCommitted E handler tx)) =
     map (InitCaches E) (unverifiedTxGroup tx)"
  by (simp add: checkAlreadyCommitted_def Let_def split: option.splits sum.splits)

lemma processDecoded_loop_None:
  "(processDecoded_loop E sp pr txs = None) =
     list_all (\<lambda>t. verifyTxnPool E t sp pr = None) txs"
  by (induction txs) (auto split: option.splits)

text \<open>
  The decoding loop, by induction on the number of records the stream holds: the slice
  it returns starts with the records in the order of the stream, however often it was
  doubled on the way.
\<close>

lemma processIncomingTxn_loop_records:
  assumes "records D k dec = Some (txs, rest)" and "ntx \<le> length grp" and "0 < length grp"
  shows "(D rest = DecErr e \<longrightarrow> processIncomingTxn_loop D z dec ntx grp = Some (Inl e)) \<and>
         (D rest = DecEOF \<longrightarrow>
            (\<exists>g. processIncomingTxn_loop D z dec ntx grp = Some (Inr (ntx + k, g)) \<and>
                 take (ntx + k) g = take ntx grp @ txs))"
  using assms
proof (induction k arbitrary: dec ntx grp txs)
  case 0
  then show ?case
    by (subst processIncomingTxn_loop.simps, subst (2) processIncomingTxn_loop.simps) auto
next
  case (Suc k)
  from Suc.prems(1) obtain tx dec' txs' where
    d: "D dec = DecOk tx dec'" and r: "records D k dec' = Some (txs', rest)"
    and t: "txs = tx # txs'"
    by (auto split: DecodeResult.splits option.splits)
  define grp1 where "grp1 = (if length grp = ntx then grp @ replicate (length grp) z else grp)"
  have len: "ntx < length grp1" using Suc.prems(2,3) by (auto simp: grp1_def)
  have tk: "take ntx grp1 = take ntx grp" using Suc.prems(2) by (auto simp: grp1_def)
  have unfold: "processIncomingTxn_loop D z dec ntx grp =
                processIncomingTxn_loop D z dec' (Suc ntx) (grp1[ntx := tx])"
    by (subst processIncomingTxn_loop.simps) (simp add: d grp1_def Let_def)
  have tk2: "take (Suc ntx) (grp1[ntx := tx]) = take ntx grp @ [tx]"
    using len tk by (simp add: take_Suc_conv_app_nth)
  have "Suc ntx \<le> length (grp1[ntx := tx])" "0 < length (grp1[ntx := tx])"
    using len by auto
  from Suc.IH [OF r this] show ?case
    by (simp add: unfold tk2 t)
qed

lemma processIncomingTxn_EOF:
  assumes "records (Decode E) k (Data msg) = Some (txs, rest)" and "Decode E rest = DecEOF"
  shows "processIncomingTxn E handler msg =
     (if k = 0 then Some (\<lparr>Action = Disconnect\<rparr>, handler)
      else if length (backlogQueue handler) < txBacklogSize
      then Some (\<lparr>Action = Ignore\<rparr>,
             handler\<lparr>backlogQueue := backlogQueue handler @
               [\<lparr>rawmsg = Some msg, unverifiedTxGroup = txs, proto = zeroProto E,
                 spec = zeroSpecialAddresses, verificationErr = None\<rparr>]\<rparr>)
      else Some (\<lparr>Action = Ignore\<rparr>,
             handler\<lparr>transactionMessagesDroppedFromBacklog :=
               transactionMessagesDroppedFromBacklog handler + 1\<rparr>))"
proof -
  from processIncomingTxn_loop_records [OF assms(1), of 0 "[zeroTx E]"] assms(2)
  obtain g where "processIncomingTxn_loop (Decode E) (zeroTx E) (Data msg) 0 [zeroTx E] =
                    Some (Inr (k, g))" and "take k g = txs"
    by auto
  then show ?thesis by (simp add: processIncomingTxn_def Let_def)
qed

lemma processIncomingTxn_DecErr:
  assumes "records (Decode E) k (Data msg) = Some (txs, rest)" and "Decode E rest = DecErr e"
  shows "processIncomingTxn E handler msg = Some (\<lparr>Action = Disconnect\<rparr>, handler)"
proof -
  from processIncomingTxn_loop_records [OF assms(1), of 0 "[zeroTx E]"] assms(2)
  have "processIncomingTxn_loop (Decode E) (zeroTx E) (Data msg) 0 [zeroTx E] = Some (Inl e)"
    by auto
  then show ?thesis by (simp add: processIncomingTxn_def)
qed

lemma example_gossip:
  "processIncomingTxn exampleCollaborators handler \<lparr>Sender = (p::nat), Data = [b]\<rparr> =
     (if b = 255 then Some (\<lparr>Action = Disconnect\<rparr>, handler)
      else if length (backlogQueue handler) < txBacklogSize
      then Some (\<lparr>Action = Ignore\<rparr>,
             handler\<lparr>backlogQueue := backlogQueue handler @
               [\<lparr>rawmsg = Some \<lparr>Sender = p, Data = [b]\<rparr>, unverifiedTxGroup = [b],
                 proto = 0, spec = zeroSpecialAddresses, verificationErr = None\<rparr>]\<rparr>)
      else Some (\<lparr>Action = Ignore\<rparr>,
             handler\<lparr>transactionMessagesDroppedFromBacklog :=
               transactionMessagesDroppedFromBacklog handler + 1\<rparr>))"
proof (cases "b = 255")
  case True
  then show ?thesis
    using processIncomingTxn_DecErr [where E = exampleCollaborators and k = 0
        and msg = "\<lparr>Sender = p, Data = [b]\<rparr>" and txs = "[]" and rest = "[b]"
        and e = "''truncated record''" and handler = handler]
    by (simp add: exampleCollaborators_def)
next
  case False
  then show ?thesis
    using processIncomingTxn_EOF [where E = exampleCollaborators and k = "Suc 0"
        and msg = "\<lparr>Sender = p, Data = [b]\<rparr>" and txs = "[b]" and rest = "[]"
        and handler = handler]
    by (simp add: exampleCollaborators_def)
qed

subsection \<open>The queues hold items of the gossip path only\<close>

lemma select_queuesFromGossip:
  assumes "backlogWorker_select E c (loc, handler) = Some (Inr (loc', handler'))"
    and "queuesFromGossip handler"
  shows "queuesFromGossip handler'"
proof -
  have post: "queuesFromGossip h'"
    if "postVerificationQueue handler = a # as"
      and "postprocessCheckedTxn E (handler\<lparr>postVerificationQueue := as\<rparr>) a = Inr h'"
    for a as h'
    using postprocessCheckedTxn_queues [OF that(2)] that(1) assms(2)
    by (simp add: queuesFromGossip_def)
  show ?thesis
  proof (cases loc)
    case AtPoll
    show ?thesis
    proof (cases "postVerificationQueue handler")
      case Nil
      with AtPoll assms show ?thesis by (simp add: backlogWorker_select_def)
    next
      case (Cons a as)
      with AtPoll assms post [OF Cons] show ?thesis
        by (cases "postprocessCheckedTxn E (handler\<lparr>postVerificationQueue := as\<rparr>) a")
           (auto simp: backlogWorker_select_def)
    qed
  next
    case AtWait
    show ?thesis
    proof (cases c)
      case CaseBacklogQueue
      show ?thesis
      proof (cases "backlogQueue handler")
        case Nil
        with AtWait CaseBacklogQueue assms show ?thesis
          by (simp add: backlogWorker_select_def)
      next
        case (Cons a as)
        obtain a' b where
          cc: "checkAlreadyCommitted E (handler\<lparr>backlogQueue := as\<rparr>) a = (a', b)"
          by (cases "checkAlreadyCommitted E (handler\<lparr>backlogQueue := as\<rparr>) a")
        from checkAlreadyCommitted_keeps [OF cc] assms(2) Cons
        have "fromGossip a' \<and> verificationErr a' = None"
          by (simp add: queuesFromGossip_def fromGossip_def)
        with AtWait CaseBacklogQueue Cons cc assms show ?thesis
          by (auto simp: backlogWorker_select_def queuesFromGossip_def Let_def
                split: if_splits)
      qed
    next
      case CasePostVerificationQueue
      show ?thesis
      proof (cases "postVerificationQueue handler")
        case Nil
        with AtWait CasePostVerificationQueue assms show ?thesis
          by (simp add: backlogWorker_select_def)
      next
        case (Cons a as)
        with AtWait CasePostVerificationQueue assms post [OF Cons] show ?thesis
          by (cases "postprocessCheckedTxn E (handler\<lparr>postVerificationQueue := as\<rparr>) a")
             (auto simp: backlogWorker_select_def)
      qed
    next
      case CaseCtxDone
      with AtWait assms show ?thesis
        by (auto simp: backlogWorker_select_def split: if_splits)
    qed
  next
    case Returned
    with assms show ?thesis by (simp add: backlogWorker_select_def)
  qed
qed

lemma processIncomingTxn_queuesFromGossip:
  assumes "processIncomingTxn E handler msg = Some (out, handler')"
    and "queuesFromGossip handler"
  shows "queuesFromGossip handler'"
  using assms
  by (auto simp: processIncomingTxn_def queuesFromGossip_def fromGossip_def Let_def
        split: option.splits sum.splits prod.splits if_splits)

lemma asyncVerifySignature_queuesFromGossip:
  assumes "txVerificationPool handler = before @ tx # after" and "queuesFromGossip handler"
  shows "queuesFromGossip
           (asyncVerifySignature E (handler\<lparr>txVerificationPool := before @ after\<rparr>) tx)"
  using assms
  by (auto simp: asyncVerifySignature_def queuesFromGossip_def fromGossip_def Let_def)

lemma step_queuesFromGossip:
  "step E cfg cfg' \<Longrightarrow> queuesFromGossip (snd cfg) \<Longrightarrow> queuesFromGossip (snd cfg')"
proof (induction rule: step.induct)
  case (dispatcher c cfg cfg')
  then show ?case
    using select_queuesFromGossip [of E c "fst cfg" "snd cfg" "fst cfg'" "snd cfg'"] by simp
next
  case (verifier handler before tx after loc)
  then show ?case by (simp add: asyncVerifySignature_queuesFromGossip)
next
  case (gossip handler msg out handler' loc)
  then show ?case using processIncomingTxn_queuesFromGossip by fastforce
next
  case (stop loc handler)
  then show ?case by (simp add: queuesFromGossip_def)
qed

text \<open>
  Whatever the four parties do after \<^verbatim>\<open>Start\<close>, every item on the two channels and
  in the verification pool carries its message, and with it its sender; an item that
  waits for verification carries no verification error.
\<close>

lemma reachable_queuesFromGossip:
  assumes "reachable E pool l cfg"
  shows "queuesFromGossip (snd cfg)"
  using assms unfolding reachable_def
proof (induction rule: rtranclp_induct)
  case base
  show ?case by (simp add: queuesFromGossip_def MakeTxHandler_def)
next
  case (step y z)
  then show ?case using step_queuesFromGossip by blast
qed

text \<open>So the dispatcher does not panic on an item it takes from the result queue.\<close>

lemma reachable_no_panic:
  assumes "reachable E pool l (loc, handler)"
  shows "backlogWorker_select E c (loc, handler) \<noteq> Some (Inl p)"
proof -
  have q: "list_all fromGossip (postVerificationQueue handler)"
    using reachable_queuesFromGossip [OF assms] by (simp add: queuesFromGossip_def)
  have post: "map_sum id (Pair AtPoll) (postprocessCheckedTxn E h a) \<noteq> Inl p"
    if "fromGossip a" for h a
    using that
    by (auto simp: postprocessCheckedTxn_def fromGossip_def Let_def
          split: option.splits prod.splits)
  show ?thesis
  proof (cases "postVerificationQueue handler")
    case Nil
    then show ?thesis
      by (auto simp: backlogWorker_select_def Let_def
            split: location.splits list.splits selectCase.splits prod.splits)
  next
    case (Cons a as)
    with q have "fromGossip a" by simp
    from post [OF this] Cons show ?thesis
      by (auto simp: backlogWorker_select_def Let_def
            split: location.splits list.splits selectCase.splits prod.splits)
  qed
qed

lemma race_reachable: "reachable exampleCollaborators [] 1 (AtWait, raceHandler)"
proof -
  let ?E = exampleCollaborators
  let ?h0 = "MakeTxHandler [] 1 :: exampleHandler"
  let ?i1 = "\<lparr>rawmsg = Some \<lparr>Sender = (5::nat), Data = [3]\<rparr>, unverifiedTxGroup = [3::8 word],
       proto = (0::nat), spec = zeroSpecialAddresses, verificationErr = None\<rparr>"
  let ?h1 = "?h0\<lparr>backlogQueue := [?i1]\<rparr>"
  let ?h3 = "?h0\<lparr>txVerificationPool := [raceItem1]\<rparr>"
  let ?h4 = "?h0\<lparr>txVerificationPool := [raceItem1], backlogQueue := [raceItem2]\<rparr>"
  have "step ?E (AtPoll, ?h0) (AtPoll, ?h1)"
    by (rule step.gossip [where msg = "\<lparr>Sender = 5, Data = [3]\<rparr>"
          and out = "\<lparr>Action = Ignore\<rparr>"])
       (simp add: example_gossip MakeTxHandler_def txBacklogSize_def)
  moreover have "step ?E (AtPoll, ?h1) (AtWait, ?h1)"
    by (rule step.dispatcher [where c = CaseCtxDone])
       (simp add: backlogWorker_select_def MakeTxHandler_def)
  moreover have "step ?E (AtWait, ?h1) (AtPoll, ?h3)"
    by (rule step.dispatcher [where c = CaseBacklogQueue])
       (simp add: backlogWorker_select_def MakeTxHandler_def checkAlreadyCommitted_def
          exampleCollaborators_def raceItem1_def zeroSpecialAddresses_def)
  moreover have "step ?E (AtPoll, ?h3) (AtPoll, ?h4)"
    by (rule step.gossip [where msg = "\<lparr>Sender = 6, Data = [4]\<rparr>"
          and out = "\<lparr>Action = Ignore\<rparr>"])
       (simp add: example_gossip MakeTxHandler_def txBacklogSize_def raceItem2_def)
  moreover have "step ?E (AtPoll, ?h4) (AtWait, ?h4)"
    by (rule step.dispatcher [where c = CaseCtxDone])
       (simp add: backlogWorker_select_def MakeTxHandler_def)
  moreover have "step ?E (AtWait, ?h4) (AtWait, raceHandler)"
  proof -
    have "step ?E (AtWait, ?h4)
            (AtWait, asyncVerifySignature ?E (?h4\<lparr>txVerificationPool := [] @ []\<rparr>) raceItem1)"
      by (rule step.verifier) (simp add: MakeTxHandler_def)
    moreover have "asyncVerifySignature ?E (?h4\<lparr>txVerificationPool := [] @ []\<rparr>) raceItem1 =
                     raceHandler"
      by (simp add: asyncVerifySignature_def MakeTxHandler_def raceHandler_def raceItem1_def
            exampleCollaborators_def txBacklogSize_def)
    ultimately show ?thesis by simp
  qed
  ultimately show ?thesis
    unfolding reachable_def by (meson rtranclp.rtrancl_refl rtranclp.rtrancl_into_rtrancl)
qed

subsection \<open>The dispatcher loop\<close>

text \<open>
  Claim C1, as amended. Take one \<^verbatim>\<open>select\<close> of the dispatcher that completes.
  When the worker is at the poll at the head of the loop and the result queue holds an
  item, the worker processes the oldest result item, stays at the head of the loop and
  leaves the ingestion queue as it is. The ingestion queue changes only at the blocking
  \<^verbatim>\<open>select\<close>, by its ingestion case, and the worker gets to the blocking
  \<^verbatim>\<open>select\<close> only from a poll that found the result queue empty.
\<close>

theorem backlogWorker_priority:
  assumes "backlogWorker_select E c (loc, handler) = Some (Inr (loc', handler'))"
  shows "(loc = AtPoll \<and> postVerificationQueue handler = wi # rest \<longrightarrow>
            loc' = AtPoll \<and>
            postprocessCheckedTxn E (handler\<lparr>postVerificationQueue := rest\<rparr>) wi =
              Inr handler' \<and>
            postVerificationQueue handler' = rest \<and>
            backlogQueue handler' = backlogQueue handler) \<and>
         (backlogQueue handler' \<noteq> backlogQueue handler \<longrightarrow>
            loc = AtWait \<and> c = CaseBacklogQueue) \<and>
         (loc' = AtWait \<longrightarrow>
            loc = AtPoll \<and> postVerificationQueue handler = [] \<and> handler' = handler)"
proof (cases loc)
  case AtPoll
  show ?thesis
  proof (cases "postVerificationQueue handler")
    case Nil
    with AtPoll assms show ?thesis by (simp add: backlogWorker_select_def)
  next
    case (Cons a as)
    with AtPoll assms obtain h where
      p: "postprocessCheckedTxn E (handler\<lparr>postVerificationQueue := as\<rparr>) a = Inr h"
      and e: "loc' = AtPoll" "handler' = h"
      by (cases "postprocessCheckedTxn E (handler\<lparr>postVerificationQueue := as\<rparr>) a")
         (auto simp: backlogWorker_select_def)
    from postprocessCheckedTxn_queues [OF p] p e AtPoll Cons show ?thesis by auto
  qed
next
  case AtWait
  show ?thesis
  proof (cases c)
    case CaseBacklogQueue
    with AtWait assms show ?thesis
      by (auto simp: backlogWorker_select_def Let_def
            split: list.splits prod.splits if_splits)
  next
    case CasePostVerificationQueue
    with AtWait assms obtain a as h where
      q: "postVerificationQueue handler = a # as" and
      p: "postprocessCheckedTxn E (handler\<lparr>postVerificationQueue := as\<rparr>) a = Inr h"
      and e: "loc' = AtPoll" "handler' = h"
      by (cases "postVerificationQueue handler";
          cases "postprocessCheckedTxn E
                   (handler\<lparr>postVerificationQueue := tl (postVerificationQueue handler)\<rparr>)
                   (hd (postVerificationQueue handler))")
         (auto simp: backlogWorker_select_def)
    from postprocessCheckedTxn_queues [OF p] e AtWait show ?thesis by auto
  next
    case CaseCtxDone
    with AtWait assms show ?thesis
      by (auto simp: backlogWorker_select_def split: if_splits)
  qed
next
  case Returned
  with assms show ?thesis by (simp add: backlogWorker_select_def)
qed

text \<open>
  The three parts at work: a poll with a result item waiting, a poll with none, and the
  blocking \<^verbatim>\<open>select\<close> that follows it.
\<close>

theorem backlogWorker_priority_witness:
  "backlogWorker_select exampleCollaborators CaseBacklogQueue (AtPoll, raceHandler) =
     Some (Inr (AtPoll, raceHandler\<lparr>postVerificationQueue := [],
       transactionMessagesHandled := 1, txPool := [3],
       net := [NetRelay TxnTag [3] False 5]\<rparr>)) \<and>
   backlogQueue (raceHandler\<lparr>postVerificationQueue := [],
       transactionMessagesHandled := 1, txPool := [3],
       net := [NetRelay TxnTag [3] False 5]\<rparr>) = backlogQueue raceHandler \<and>
   backlogWorker_select exampleCollaborators CaseBacklogQueue
       (AtPoll, raceHandler\<lparr>postVerificationQueue := []\<rparr>) =
     Some (Inr (AtWait, raceHandler\<lparr>postVerificationQueue := []\<rparr>)) \<and>
   backlogWorker_select exampleCollaborators CaseBacklogQueue
       (AtWait, raceHandler\<lparr>postVerificationQueue := []\<rparr>) =
     Some (Inr (AtPoll, raceHandler\<lparr>postVerificationQueue := [], backlogQueue := [],
       txVerificationPool :=
         [raceItem2\<lparr>proto := 7, spec := \<lparr>FeeSink = [1], RewardsPool = [2]\<rparr>\<rparr>]\<rparr>))"
  using backlogWorker_priority [where E = exampleCollaborators and c = CaseBacklogQueue
          and loc = AtPoll and handler = raceHandler and wi = raceItem1 and rest = "[]"
          and loc' = AtPoll
          and handler' = "raceHandler\<lparr>postVerificationQueue := [],
             transactionMessagesHandled := 1, txPool := [3],
             net := [NetRelay TxnTag [3] False 5]\<rparr>"]
        backlogWorker_priority [where E = exampleCollaborators and c = CaseBacklogQueue
          and loc = AtPoll and handler = "raceHandler\<lparr>postVerificationQueue := []\<rparr>"
          and loc' = AtWait and handler' = "raceHandler\<lparr>postVerificationQueue := []\<rparr>"]
        backlogWorker_priority [where E = exampleCollaborators and c = CaseBacklogQueue
          and loc = AtWait and handler = "raceHandler\<lparr>postVerificationQueue := []\<rparr>"
          and loc' = AtPoll
          and handler' = "raceHandler\<lparr>postVerificationQueue := [], backlogQueue := [],
             txVerificationPool :=
               [raceItem2\<lparr>proto := 7, spec := \<lparr>FeeSink = [1], RewardsPool = [2]\<rparr>\<rparr>]\<rparr>"]
  by (simp add: backlogWorker_select_def raceHandler_def MakeTxHandler_def
        checkAlreadyCommitted_def exampleCollaborators_def raceItem1_def raceItem2_def
        postprocessCheckedTxn_def reencode_def Let_def)

text \<open>
  Claim C1 as it stands fails. The handler \<open>raceHandler\<close> is reached from a fresh
  handler: two messages arrive, the dispatcher hands the first to the verification pool,
  polls the empty result queue and goes to the blocking \<^verbatim>\<open>select\<close>, and then the
  verification of the first message completes. The result queue now holds an item, and
  the blocking \<^verbatim>\<open>select\<close> may take the ingestion item all the same.
\<close>

theorem backlogWorker_race_counterexample:
  "reachable exampleCollaborators [] 1 (AtWait, raceHandler) \<and>
   postVerificationQueue raceHandler = [raceItem1] \<and>
   backlogQueue raceHandler = [raceItem2] \<and>
   backlogWorker_select exampleCollaborators CaseBacklogQueue (AtWait, raceHandler) =
     Some (Inr (AtPoll,
       raceHandler\<lparr>backlogQueue := [],
         txVerificationPool :=
           [raceItem2\<lparr>proto := 7, spec := \<lparr>FeeSink = [1], RewardsPool = [2]\<rparr>\<rparr>]\<rparr>))"
  using race_reachable
  by (simp add: backlogWorker_select_def raceHandler_def MakeTxHandler_def
        checkAlreadyCommitted_def exampleCollaborators_def raceItem2_def)

subsection \<open>Results of verification\<close>

text \<open>
  Claim C2. A result item without a verification error, whose group the pool admits,
  leads to exactly one more call on the network: a relay of the concatenated encodings
  of the group's transactions, in order, that excepts the sender of the item. The bytes
  of the inbound message play no part in it.
\<close>

theorem postprocessCheckedTxn_relay:
  assumes "verificationErr wi = None" and "rawmsg wi = Some m"
    and "poolRemember E (txPool handler) (unverifiedTxGroup wi) = (None, pool')"
  shows "postprocessCheckedTxn E handler wi =
     Inr (handler\<lparr>transactionMessagesHandled := transactionMessagesHandled handler + 1,
            txPool := pool',
            net := net handler @
              [NetRelay TxnTag (concat (map (Encode E) (unverifiedTxGroup wi))) False
                 (Sender m)]\<rparr>)"
  using assms by (simp add: postprocessCheckedTxn_def reencode_concat)

text \<open>The message below repeats a byte; what is relayed is the group, not the message.\<close>

theorem postprocessCheckedTxn_relay_witness:
  "postprocessCheckedTxn exampleCollaborators (MakeTxHandler [] 1)
     \<lparr>rawmsg = Some \<lparr>Sender = (5::nat), Data = [3, 4, 4]\<rparr>, unverifiedTxGroup = [3, 4],
      proto = 7, spec = zeroSpecialAddresses, verificationErr = None\<rparr> =
   Inr ((MakeTxHandler [] 1)\<lparr>transactionMessagesHandled := 1, txPool := [3, 4],
          net := [NetRelay TxnTag [3, 4] False 5]\<rparr>)"
  using postprocessCheckedTxn_relay [where E = exampleCollaborators
      and handler = "MakeTxHandler [] 1"
      and wi = "\<lparr>rawmsg = Some \<lparr>Sender = (5::nat), Data = [3, 4, 4]\<rparr>,
                unverifiedTxGroup = [3, 4], proto = 7, spec = zeroSpecialAddresses,
                verificationErr = None\<rparr>"
      and m = "\<lparr>Sender = (5::nat), Data = [3, 4, 4]\<rparr>" and pool' = "[3, 4]"]
  by (simp add: exampleCollaborators_def MakeTxHandler_def)

text \<open>
  Claim C3. A result item with a verification error leads to a disconnect of its
  sender and to nothing else: the pool, the counter of handled messages and the rest of
  the handler are as before, and no relay is made.
\<close>

theorem postprocessCheckedTxn_disconnect:
  assumes "verificationErr wi = Some e" and "rawmsg wi = Some m"
  shows "postprocessCheckedTxn E handler wi =
           Inr (handler\<lparr>net := net handler @ [NetDisconnect (Sender m)]\<rparr>)"
  using assms by (simp add: postprocessCheckedTxn_def)

theorem postprocessCheckedTxn_disconnect_witness:
  "postprocessCheckedTxn exampleCollaborators (MakeTxHandler [] 1)
     \<lparr>rawmsg = Some \<lparr>Sender = (5::nat), Data = [3, 9]\<rparr>, unverifiedTxGroup = [3, 9],
      proto = 7, spec = zeroSpecialAddresses,
      verificationErr = Some ''bad signature''\<rparr> =
   Inr ((MakeTxHandler [] 1)\<lparr>net := [NetDisconnect 5]\<rparr>)"
  using postprocessCheckedTxn_disconnect [where E = exampleCollaborators
      and handler = "MakeTxHandler [] 1"
      and wi = "\<lparr>rawmsg = Some \<lparr>Sender = (5::nat), Data = [3, 9]\<rparr>,
                unverifiedTxGroup = [3, 9], proto = 7, spec = zeroSpecialAddresses,
                verificationErr = Some ''bad signature''\<rparr>"
      and m = "\<lparr>Sender = (5::nat), Data = [3, 9]\<rparr>" and e = "''bad signature''"]
  by (simp add: MakeTxHandler_def)

subsection \<open>The solicited path\<close>

text \<open>
  Claim C4, as amended. When the fast-reject filter lets a solicited group pass and every
  transaction of it passes the verifier, \<^verbatim>\<open>Handle\<close> offers the group to the pool
  and returns no error. It leaves everything but the pool as it was: the solicited path
  makes no call on the network, so the group is not relayed.
\<close>

theorem Handle_admit_no_relay:
  assumes "checkAlreadyCommitted E handler
             \<lparr>rawmsg = None, unverifiedTxGroup = txgroup, proto = zeroProto E,
              spec = zeroSpecialAddresses, verificationErr = None\<rparr> = (tx, False)"
    and "list_all (\<lambda>t. verifyTxnPool E t (spec tx) (proto tx) = None) (unverifiedTxGroup tx)"
  shows "Handle E handler txgroup =
           (None, handler\<lparr>txPool :=
              snd (poolRemember E (txPool handler) (map (InitCaches E) txgroup))\<rparr>)"
proof -
  have g: "unverifiedTxGroup tx = map (InitCaches E) txgroup"
    using checkAlreadyCommitted_group [of E handler
        "\<lparr>rawmsg = None, unverifiedTxGroup = txgroup, proto = zeroProto E,
          spec = zeroSpecialAddresses, verificationErr = None\<rparr>"] assms(1)
    by simp
  have l: "processDecoded_loop E (spec tx) (proto tx) (unverifiedTxGroup tx) = None"
    using assms(2) by (simp add: processDecoded_loop_None)
  show ?thesis
    using assms(1) l g
    by (auto simp: Handle_def processDecoded_def zeroOutgoingMessage_def Let_def
          split: prod.splits option.splits)
qed

theorem Handle_admit_no_relay_witness:
  "Handle exampleCollaborators (MakeTxHandler [] 1 :: exampleHandler) [3, 4] =
     (None, (MakeTxHandler [] 1)\<lparr>txPool := [3, 4]\<rparr>)"
  using Handle_admit_no_relay [where E = exampleCollaborators
      and handler = "MakeTxHandler [] 1 :: exampleHandler" and txgroup = "[3, 4]"
      and tx = "\<lparr>rawmsg = None, unverifiedTxGroup = [3, 4], proto = 7,
                 spec = \<lparr>FeeSink = [1], RewardsPool = [2]\<rparr>, verificationErr = None\<rparr>"]
  by (simp add: exampleCollaborators_def MakeTxHandler_def checkAlreadyCommitted_def
        zeroSpecialAddresses_def)

text \<open>
  Claim C4 as it stands fails: the group \<open>[3, 4]\<close> passes the filter and the verifier
  and is admitted, and no relay has been made.
\<close>

theorem Handle_relay_counterexample:
  "snd (checkAlreadyCommitted exampleCollaborators (MakeTxHandler [] 1 :: exampleHandler)
          \<lparr>rawmsg = None, unverifiedTxGroup = [3, 4], proto = 0,
           spec = zeroSpecialAddresses, verificationErr = None\<rparr>) = False \<and>
   verifyTxnPool exampleCollaborators 3 \<lparr>FeeSink = [1], RewardsPool = [2]\<rparr> 7 = None \<and>
   verifyTxnPool exampleCollaborators 4 \<lparr>FeeSink = [1], RewardsPool = [2]\<rparr> 7 = None \<and>
   txPool (snd (Handle exampleCollaborators (MakeTxHandler [] 1 :: exampleHandler) [3, 4])) =
     [3, 4] \<and>
   net (snd (Handle exampleCollaborators (MakeTxHandler [] 1 :: exampleHandler) [3, 4])) = []"
  by (simp add: exampleCollaborators_def MakeTxHandler_def checkAlreadyCommitted_def
        Handle_def processDecoded_def zeroOutgoingMessage_def zeroSpecialAddresses_def)

text \<open>
  Claim C5, as amended. \<^verbatim>\<open>Handle\<close> has two outcomes. It returns an error exactly
  when the fast-reject filter lets the group pass and some transaction of it fails the
  verifier. In every other case it returns no error: when the group is admitted, when
  the pool refuses it, and when the fast-reject filter has already handled it.
\<close>

theorem Handle_two_outcomes:
  "fst (Handle E handler txgroup) =
     (case checkAlreadyCommitted E handler
             \<lparr>rawmsg = None, unverifiedTxGroup = txgroup, proto = zeroProto E,
              spec = zeroSpecialAddresses, verificationErr = None\<rparr> of
        (tx, stop) \<Rightarrow>
          if stop then None
          else if list_all (\<lambda>t. verifyTxnPool E t (spec tx) (proto tx) = None)
                    (unverifiedTxGroup tx)
          then None
          else Some ''invlid transaction'')"
  by (auto simp: Handle_def processDecoded_def zeroOutgoingMessage_def Let_def
        processDecoded_loop_None [symmetric]
        split: prod.splits option.splits)

theorem Handle_two_outcomes_witness:
  "fst (Handle exampleCollaborators (MakeTxHandler [] 1 :: exampleHandler) [3, 9]) =
     Some ''invlid transaction''"
  using Handle_two_outcomes [where E = exampleCollaborators
      and handler = "MakeTxHandler [] 1 :: exampleHandler" and txgroup = "[3, 9]"]
  by (simp add: exampleCollaborators_def MakeTxHandler_def checkAlreadyCommitted_def)

text \<open>
  Claim C5 as it stands fails: for a pool that holds the transaction \<open>3\<close> the filter
  handles the group \<open>[3]\<close>, for an empty pool the group is verified and admitted, and
  \<^verbatim>\<open>Handle\<close> returns the same \<^verbatim>\<open>nil\<close> both times.
\<close>

theorem Handle_noop_counterexample:
  "snd (checkAlreadyCommitted exampleCollaborators (MakeTxHandler [3] 1 :: exampleHandler)
          \<lparr>rawmsg = None, unverifiedTxGroup = [3], proto = 0,
           spec = zeroSpecialAddresses, verificationErr = None\<rparr>) = True \<and>
   Handle exampleCollaborators (MakeTxHandler [3] 1 :: exampleHandler) [3] =
     (None, MakeTxHandler [3] 1) \<and>
   Handle exampleCollaborators (MakeTxHandler [] 1 :: exampleHandler) [3] =
     (None, MakeTxHandler [3] 1)"
  by (simp add: exampleCollaborators_def MakeTxHandler_def checkAlreadyCommitted_def
        Handle_def processDecoded_def zeroOutgoingMessage_def zeroSpecialAddresses_def)

subsection \<open>Inbound messages\<close>




text \<open>
  Claim C7. A message that decodes to one or more records and then ends is answered
  with ignore. When the ingestion queue has room the item is appended to it; when it
  is full the item is dropped and the counter of messages dropped from the backlog
  goes up by one. The call returns in either case.
\<close>

theorem processIncomingTxn_enqueue:
  assumes "records (Decode E) k (Data msg) = Some (txs, rest)" and "Decode E rest = DecEOF"
    and "0 < k"
  shows "processIncomingTxn E handler msg =
     Some (\<lparr>Action = Ignore\<rparr>,
       if length (backlogQueue handler) < txBacklogSize
       then handler\<lparr>backlogQueue := backlogQueue handler @
               [\<lparr>rawmsg = Some msg, unverifiedTxGroup = txs, proto = zeroProto E,
                 spec = zeroSpecialAddresses, verificationErr = None\<rparr>]\<rparr>
       else handler\<lparr>transactionMessagesDroppedFromBacklog :=
               transactionMessagesDroppedFromBacklog handler + 1\<rparr>)"
  using assms by (simp add: processIncomingTxn_EOF)

theorem processIncomingTxn_enqueue_witness:
  "processIncomingTxn exampleCollaborators (MakeTxHandler [] 1)
       \<lparr>Sender = (5::nat), Data = [3, 4]\<rparr> =
     Some (\<lparr>Action = Ignore\<rparr>,
       (MakeTxHandler [] 1)\<lparr>backlogQueue :=
          [\<lparr>rawmsg = Some \<lparr>Sender = (5::nat), Data = [3, 4]\<rparr>, unverifiedTxGroup = [3, 4],
            proto = 0, spec = zeroSpecialAddresses, verificationErr = None\<rparr>]\<rparr>) \<and>
   processIncomingTxn exampleCollaborators fullHandler \<lparr>Sender = 5, Data = [3, 4]\<rparr> =
     Some (\<lparr>Action = Ignore\<rparr>, fullHandler\<lparr>transactionMessagesDroppedFromBacklog := 1\<rparr>)"
  using processIncomingTxn_enqueue [where E = exampleCollaborators
          and msg = "\<lparr>Sender = (5::nat), Data = [3, 4]\<rparr>" and k = "Suc (Suc 0)"
          and txs = "[3, 4]" and rest = "[]" and handler = "MakeTxHandler [] 1"]
        processIncomingTxn_enqueue [where E = exampleCollaborators
          and msg = "\<lparr>Sender = (5::nat), Data = [3, 4]\<rparr>" and k = "Suc (Suc 0)"
          and txs = "[3, 4]" and rest = "[]" and handler = fullHandler]
  by (simp add: exampleCollaborators_def MakeTxHandler_def fullHandler_def txBacklogSize_def)

subsection \<open>Asynchronous verification\<close>

text \<open>
  Claim C8. For an item that carries no verification error yet, as every item handed to
  the verification pool does, the task records the verifier's answer for the first
  transaction of the group, in order, that fails (whatever follows it), and no error
  when none fails. It then sends the item on the result queue when there is room, and
  otherwise drops it and adds one to the counter of messages dropped from the pool.
\<close>

theorem asyncVerifySignature_first_failure:
  assumes "verificationErr tx = None"
  shows "asyncVerifySignature E handler tx =
     (let tx' = tx\<lparr>verificationErr :=
                  (case find (\<lambda>t. verifyTxn E t (spec tx) (proto tx) \<noteq> None)
                          (unverifiedTxGroup tx) of
                     None \<Rightarrow> None
                   | Some t \<Rightarrow> verifyTxn E t (spec tx) (proto tx))\<rparr>
      in if length (postVerificationQueue handler) < txBacklogSize
         then handler\<lparr>postVerificationQueue := postVerificationQueue handler @ [tx']\<rparr>
         else handler\<lparr>transactionMessagesDroppedFromPool :=
                transactionMessagesDroppedFromPool handler + 1\<rparr>)"
  using assms by (simp add: asyncVerifySignature_def asyncVerifySignature_loop_find)

theorem asyncVerifySignature_first_failure_witness:
  "asyncVerifySignature exampleCollaborators (MakeTxHandler [] 1 :: exampleHandler)
       (raceItem1\<lparr>unverifiedTxGroup := [3, 9, 4]\<rparr>) =
     (MakeTxHandler [] 1)\<lparr>postVerificationQueue :=
        [raceItem1\<lparr>unverifiedTxGroup := [3, 9, 4],
           verificationErr := Some ''bad signature''\<rparr>]\<rparr> \<and>
   asyncVerifySignature exampleCollaborators fullHandler raceItem1 =
     fullHandler\<lparr>transactionMessagesDroppedFromPool := 1\<rparr>"
  using asyncVerifySignature_first_failure [where E = exampleCollaborators
          and handler = "MakeTxHandler [] 1 :: exampleHandler"
          and tx = "raceItem1\<lparr>unverifiedTxGroup := [3, 9, 4]\<rparr>"]
        asyncVerifySignature_first_failure [where E = exampleCollaborators
          and handler = fullHandler and tx = raceItem1]
  by (simp add: exampleCollaborators_def MakeTxHandler_def fullHandler_def raceItem1_def
        txBacklogSize_def)

subsection \<open>The fast-reject filter\<close>

text \<open>
  Claim C9. The filter returns a boolean only. It answers stop when the pool's test
  refuses the group, and when the test accepts the group and the ledger has no header
  for its latest round. When the test accepts the group and the ledger has the header,
  it answers continue, and the item then holds the consensus parameters of the header's
  protocol version and the header's fee sink and rewards pool.
\<close>

theorem checkAlreadyCommitted_outcome:
  "(poolTest E (txPool handler) (map (InitCaches E) (unverifiedTxGroup tx)) = Some e \<longrightarrow>
      snd (checkAlreadyCommitted E handler tx) = True) \<and>
   (poolTest E (txPool handler) (map (InitCaches E) (unverifiedTxGroup tx)) = None \<and>
    ledgerBlockHdr E (ledger handler) (ledgerLatest E (ledger handler)) = Inl e' \<longrightarrow>
      snd (checkAlreadyCommitted E handler tx) = True) \<and>
   (poolTest E (txPool handler) (map (InitCaches E) (unverifiedTxGroup tx)) = None \<and>
    ledgerBlockHdr E (ledger handler) (ledgerLatest E (ledger handler)) = Inr hdr \<longrightarrow>
      snd (checkAlreadyCommitted E handler tx) = False \<and>
      proto (fst (checkAlreadyCommitted E handler tx)) =
        (case Consensus E (hdrCurrentProtocol hdr) of None \<Rightarrow> zeroProto E | Some p \<Rightarrow> p) \<and>
      spec (fst (checkAlreadyCommitted E handler tx)) =
        \<lparr>FeeSink = hdrFeeSink hdr, RewardsPool = hdrRewardsPool hdr\<rparr>)"
  by (simp add: checkAlreadyCommitted_def)

text \<open>A duplicate, a ledger without the header, and a group that goes on to verification.\<close>

theorem checkAlreadyCommitted_outcome_witness:
  "snd (checkAlreadyCommitted exampleCollaborators (MakeTxHandler [8] 1 :: exampleHandler)
          exampleItem) = True \<and>
   snd (checkAlreadyCommitted exampleCollaborators (MakeTxHandler [] 0 :: exampleHandler)
          exampleItem) = True \<and>
   snd (checkAlreadyCommitted exampleCollaborators (MakeTxHandler [] 1 :: exampleHandler)
          exampleItem) = False \<and>
   proto (fst (checkAlreadyCommitted exampleCollaborators
          (MakeTxHandler [] 1 :: exampleHandler) exampleItem)) = 7 \<and>
   spec (fst (checkAlreadyCommitted exampleCollaborators
          (MakeTxHandler [] 1 :: exampleHandler) exampleItem)) =
     \<lparr>FeeSink = [1], RewardsPool = [2]\<rparr>"
  using checkAlreadyCommitted_outcome [where E = exampleCollaborators
          and handler = "MakeTxHandler [8] 1 :: exampleHandler" and tx = exampleItem
          and e = "''duplicate''"]
        checkAlreadyCommitted_outcome [where E = exampleCollaborators
          and handler = "MakeTxHandler [] 0 :: exampleHandler" and tx = exampleItem
          and e' = "''no header''"]
        checkAlreadyCommitted_outcome [where E = exampleCollaborators
          and handler = "MakeTxHandler [] 1 :: exampleHandler" and tx = exampleItem
          and hdr = "\<lparr>hdrCurrentProtocol = ''v1'', hdrFeeSink = [1], hdrRewardsPool = [2]\<rparr>"]
  by (simp add: exampleCollaborators_def MakeTxHandler_def exampleItem_def)

text \<open>
  Claim C10. The filter leaves the message and the verification error of the item as
  they are. When it answers stop it leaves the consensus parameters and the special
  addresses of the item as they are, too: they are assigned on the way to continue only.
\<close>

theorem checkAlreadyCommitted_frame:
  "rawmsg (fst (checkAlreadyCommitted E handler tx)) = rawmsg tx \<and>
   verificationErr (fst (checkAlreadyCommitted E handler tx)) = verificationErr tx \<and>
   (snd (checkAlreadyCommitted E handler tx) \<longrightarrow>
      proto (fst (checkAlreadyCommitted E handler tx)) = proto tx \<and>
      spec (fst (checkAlreadyCommitted E handler tx)) = spec tx)"
  by (simp add: checkAlreadyCommitted_def Let_def split: option.splits sum.splits)

theorem checkAlreadyCommitted_frame_witness:
  "snd (checkAlreadyCommitted exampleCollaborators (MakeTxHandler [3] 1 :: exampleHandler)
          raceItem1) \<and>
   fst (checkAlreadyCommitted exampleCollaborators (MakeTxHandler [3] 1 :: exampleHandler)
          raceItem1) = raceItem1"
proof -
  have s: "snd (checkAlreadyCommitted exampleCollaborators
                 (MakeTxHandler [3] 1 :: exampleHandler) raceItem1)"
    by (simp add: checkAlreadyCommitted_def exampleCollaborators_def MakeTxHandler_def
          raceItem1_def)
  have g: "unverifiedTxGroup (fst (checkAlreadyCommitted exampleCollaborators
                 (MakeTxHandler [3] 1 :: exampleHandler) raceItem1)) =
           unverifiedTxGroup raceItem1"
    by (simp add: checkAlreadyCommitted_group exampleCollaborators_def)
  from s g checkAlreadyCommitted_frame [where E = exampleCollaborators
          and handler = "MakeTxHandler [3] 1 :: exampleHandler" and tx = raceItem1]
  show ?thesis by (simp add: txBacklogMsg.equality)
qed

end
